theory Spec2Isabelle
  imports Complex_Main "HOL-Library.Log_Nat"
begin

section \<open>NRCLex: the affect analyzer of \<^verbatim>\<open>src/nrclex/nrclex.py\<close>\<close>

text \<open>
  The class \<^verbatim>\<open>NRCLex\<close> holds a lexicon (a dict from word to a list of emotion labels),
  a token list and four derived fields. The embedding follows the source method by method.

  \<^item> Python's \<^verbatim>\<open>str\<close> is \<open>string\<close>; the code only compares and hashes strings.
  \<^item> The lexicon is only read by key (\<^verbatim>\<open>in\<close>, \<^verbatim>\<open>[]\<close>), so it is a map
    \<open>string \<rightharpoonup> string list\<close>, the declared type \<^verbatim>\<open>dict[str, list[str]]\<close>. What
    \<^verbatim>\<open>json.load\<close> returns is not validated; the methods on an arbitrary parsed JSON value,
    with the raises that a value of another shape causes, follow in a section of their own.
  \<^item> The dicts the code builds (\<^verbatim>\<open>affect_dict\<close>, the \<^verbatim>\<open>Counter\<close>, \<^verbatim>\<open>affect_percent\<close>) are
    association lists in insertion order, as a Python dict iterates: \<^verbatim>\<open>d[k] = v\<close> overwrites
    in place where the key exists and appends otherwise.
  \<^item> Every in-place mutation of the source (\<^verbatim>\<open>extend\<close>, \<^verbatim>\<open>update\<close>, \<^verbatim>\<open>+= 1\<close>) targets an
    object created in the same call, so values are passed and returned and no store of
    addresses is needed.
  \<^item> An exception is a value of \<open>error\<close>. A method that assigns fields before it may raise
    returns the state it leaves behind together with the exception.
  \<^item> \<^verbatim>\<open>float(a) / float(b)\<close> is a parameter \<open>quot\<close> giving the quotient in the number type
    \<open>'f\<close> of the frequencies, a linear order; the raise on a zero divisor is written out.
    The exact quotient of rationals is \<open>exact_quot\<close>; the quotient of IEEE doubles, rounded
    to 53 significant bits, is \<open>double_quot\<close>.
\<close>

subsection \<open>Errors and dicts\<close>

datatype error =
    TypeError
  | ValueError
  | ZeroDivisionError
  | KeyError
  | OSError
  | JSONDecodeError
  | LookupError
  | AttributeError

type_synonym path = string

type_synonym lexicon_map = "string \<rightharpoonup> string list"

text \<open>\<^verbatim>\<open>d[k] = v\<close> on an insertion-ordered dict.\<close>

fun dict_set :: "'k \<Rightarrow> 'v \<Rightarrow> ('k \<times> 'v) list \<Rightarrow> ('k \<times> 'v) list" where
  "dict_set k v [] = [(k, v)]"
| "dict_set k v (p # d) = (if fst p = k then (fst p, v) # d else p # dict_set k v d)"

text \<open>\<^verbatim>\<open>Counter.__getitem__\<close>: a missing key reads as 0.\<close>

definition counter_get :: "('k \<times> nat) list \<Rightarrow> 'k \<Rightarrow> nat" where
  "counter_get c k = (case map_of c k of None \<Rightarrow> 0 | Some n \<Rightarrow> n)"

subsection \<open>The analyzer object\<close>

record 'f nrclex =
  lexicon :: lexicon_map
  words :: "string list"
  affect_list :: "string list"
  affect_dict :: "(string \<times> string list) list"
  raw_emotion_scores :: "(string \<times> nat) list"
  affect_frequencies :: "(string \<times> 'f) list"

subsection \<open>Construction and \<^verbatim>\<open>load_lexicon\<close>\<close>

text \<open>
  \<^verbatim>\<open>open(path)\<close> followed by \<^verbatim>\<open>json.load\<close> is a parameter \<open>reader\<close>: the lexicon stored at
  a path, or the exception raised by opening or parsing. An operation that opens files
  returns the list of paths it opened, in order, beside its result.
\<close>

definition load_lexicon ::
  "(path \<Rightarrow> error + lexicon_map) \<Rightarrow> 'f nrclex \<Rightarrow> path \<Rightarrow> path list \<times> (error + 'f nrclex)" where
  "load_lexicon reader self p =
     ([p], case reader p of Inl e \<Rightarrow> Inl e | Inr entries \<Rightarrow> Inr (self\<lparr>lexicon := entries\<rparr>))"

text \<open>
  The constructor's argument: a \<^verbatim>\<open>pathlib.Path\<close>, a \<^verbatim>\<open>str\<close>, or any other object (which is
  no \<^verbatim>\<open>Path\<close> and equals no string). The table \<^verbatim>\<open>preinstalled_files\<close> is built before the
  argument is looked at; \<^verbatim>\<open>files('nrclex.data').joinpath(...)\<close> only names the bundled
  resource and opens nothing, and the package data is taken to be installed. A designator
  that passed the membership test and were missing from the table would raise
  \<^verbatim>\<open>KeyError\<close>.
\<close>

datatype lexicon_arg = PathArg path | StrArg string | OtherArg

definition PreInstalledLexicons :: "string list" where
  "PreInstalledLexicons = [''NRCLex'']"

definition preinstalled_files :: "(string \<times> path) list" where
  "preinstalled_files = [(''NRCLex'', ''nrclex.data/nrc_en.json'')]"

definition new_object :: "'f nrclex" where
  "new_object = \<lparr>lexicon = Map.empty, words = [], affect_list = [], affect_dict = [],
                  raw_emotion_scores = [], affect_frequencies = []\<rparr>"

definition init ::
  "(path \<Rightarrow> error + lexicon_map) \<Rightarrow> lexicon_arg \<Rightarrow> path list \<times> (error + 'f nrclex)" where
  "init reader lexicon_file =
     (case lexicon_file of
        PathArg p \<Rightarrow> load_lexicon reader new_object p
      | StrArg name \<Rightarrow>
          if name \<in> set PreInstalledLexicons
          then (case map_of preinstalled_files name of
                  None \<Rightarrow> ([], Inl KeyError)
                | Some p \<Rightarrow> load_lexicon reader new_object p)
          else ([], Inl TypeError)
      | OtherArg \<Rightarrow> ([], Inl TypeError))"

subsection \<open>\<^verbatim>\<open>build_word_affect\<close>\<close>

text \<open>The first loop: over \<^verbatim>\<open>self.words\<close>, extending the list and updating the dict.\<close>

fun match_words ::
  "lexicon_map \<Rightarrow> string list \<Rightarrow> string list \<times> (string \<times> string list) list
     \<Rightarrow> string list \<times> (string \<times> string list) list" where
  "match_words entries [] acc = acc"
| "match_words entries (word # rest) (al, ad) =
     (case entries word of
        None \<Rightarrow> match_words entries rest (al, ad)
      | Some emotions \<Rightarrow> match_words entries rest (al @ emotions, dict_set word emotions ad))"

text \<open>The second loop: \<^verbatim>\<open>affect_frequencies[word] += 1\<close> for every label.\<close>

fun tally :: "'k list \<Rightarrow> ('k \<times> nat) list \<Rightarrow> ('k \<times> nat) list" where
  "tally [] c = c"
| "tally (word # rest) c = tally rest (dict_set word (counter_get c word + 1) c)"

text \<open>\<^verbatim>\<open>float(a) / float(b)\<close>, which raises on a zero divisor.\<close>

definition float_div :: "(nat \<Rightarrow> nat \<Rightarrow> 'f) \<Rightarrow> nat \<Rightarrow> nat \<Rightarrow> error + 'f" where
  "float_div quot a b = (if b = 0 then Inl ZeroDivisionError else Inr (quot a b))"

definition exact_quot :: "nat \<Rightarrow> nat \<Rightarrow> rat" where
  "exact_quot a b = of_nat a / of_nat b"

text \<open>The dict comprehension: one division per key of the counter, in key order.\<close>

fun percent_loop ::
  "(nat \<Rightarrow> nat \<Rightarrow> 'f) \<Rightarrow> ('k \<times> nat) list \<Rightarrow> nat \<Rightarrow> 'k list
     \<Rightarrow> ('k \<times> 'f) list \<Rightarrow> error + ('k \<times> 'f) list" where
  "percent_loop quot c sum_values [] acc = Inr acc"
| "percent_loop quot c sum_values (key # rest) acc =
     (case float_div quot (counter_get c key) sum_values of
        Inl e \<Rightarrow> Inl e
      | Inr q \<Rightarrow> percent_loop quot c sum_values rest (dict_set key q acc))"

definition build_word_affect :: "(nat \<Rightarrow> nat \<Rightarrow> 'f) \<Rightarrow> 'f nrclex \<Rightarrow> error + 'f nrclex" where
  "build_word_affect quot self =
     (let (al, ad) = match_words (lexicon self) (words self) ([], []);
          c = tally al [];
          sum_values = sum_list (map snd c)
      in case percent_loop quot c sum_values (map fst c) [] of
           Inl e \<Rightarrow> Inl e
         | Inr affect_percent \<Rightarrow>
             Inr (self\<lparr>affect_list := al, affect_dict := ad,
                       raw_emotion_scores := c, affect_frequencies := affect_percent\<rparr>))"

subsection \<open>\<^verbatim>\<open>top_emotions\<close>\<close>

text \<open>\<^verbatim>\<open>max\<close> of an iterable: the first element, replaced by each strictly larger one.\<close>

fun max_loop :: "'f::linorder \<Rightarrow> 'f list \<Rightarrow> 'f" where
  "max_loop m [] = m"
| "max_loop m (x # xs) = max_loop (if m < x then x else m) xs"

definition max_values :: "'f::linorder list \<Rightarrow> error + 'f" where
  "max_values vs = (case vs of [] \<Rightarrow> Inl ValueError | v # rest \<Rightarrow> Inr (max_loop v rest))"

fun top_loop ::
  "(string \<times> 'f) list \<Rightarrow> 'f \<Rightarrow> string list \<Rightarrow> (string \<times> 'f) list
     \<Rightarrow> error + (string \<times> 'f) list" where
  "top_loop d max_value [] acc = Inr acc"
| "top_loop d max_value (key # rest) acc =
     (case map_of d key of
        None \<Rightarrow> Inl KeyError
      | Some v \<Rightarrow> top_loop d max_value rest (if v = max_value then acc @ [(key, max_value)] else acc))"

definition top_emotions :: "('f::linorder) nrclex \<Rightarrow> error + (string \<times> 'f) list" where
  "top_emotions self =
     (case max_values (map snd (affect_frequencies self)) of
        Inl e \<Rightarrow> Inl e
      | Inr max_value \<Rightarrow>
          top_loop (affect_frequencies self) max_value (map fst (affect_frequencies self)) [])"

subsection \<open>\<^verbatim>\<open>load_token_list\<close> and \<^verbatim>\<open>load_raw_text\<close>\<close>

text \<open>
  \<^verbatim>\<open>self.words\<close> is assigned before \<^verbatim>\<open>build_word_affect\<close> runs, and that method assigns its
  four fields only at its end: if it raised, the object would keep the new words and the
  old derived fields. The result is the exception, if any, and the object left behind.
\<close>

definition load_token_list ::
  "(nat \<Rightarrow> nat \<Rightarrow> 'f) \<Rightarrow> 'f nrclex \<Rightarrow> string list \<Rightarrow> error option \<times> 'f nrclex" where
  "load_token_list quot self token_list =
     (let self1 = self\<lparr>words := token_list\<rparr>
      in case build_word_affect quot self1 of
           Inl e \<Rightarrow> (Some e, self1)
         | Inr self2 \<Rightarrow> (None, self2))"

text \<open>
  \<^verbatim>\<open>[w.lemma for w in TextBlob(text).words]\<close> is the external tokenizer, a parameter: the
  lemmas of a text, or the exception it raises.
\<close>

definition load_raw_text ::
  "(string \<Rightarrow> error + string list) \<Rightarrow> (nat \<Rightarrow> nat \<Rightarrow> 'f) \<Rightarrow> 'f nrclex \<Rightarrow> string
     \<Rightarrow> error option \<times> 'f nrclex" where
  "load_raw_text lemmas quot self text =
     (case lemmas text of
        Inl e \<Rightarrow> (Some e, self)
      | Inr token_list \<Rightarrow> load_token_list quot self token_list)"

subsection \<open>The quotient of doubles\<close>

text \<open>
  \<^verbatim>\<open>float(a) / float(b)\<close> on a machine: both counts convert exactly (they are below
  \<open>2 ^ 53\<close>), and the quotient is the exact one rounded to the nearest number with 53
  significant bits, ties to the even one. The result is a rational number. The exponent
  range of a double is not modelled; quotients of counts are far inside it.
\<close>

definition round_half_even :: "rat \<Rightarrow> int" where
  "round_half_even x =
     (let f = \<lfloor>x\<rfloor>; r = x - of_int f
      in if r < 1 / 2 then f else if 1 / 2 < r then f + 1 else if even f then f else f + 1)"

definition pow2 :: "int \<Rightarrow> rat" where
  "pow2 k = (if 0 \<le> k then 2 ^ nat k else 1 / 2 ^ nat (- k))"

text \<open>The exponent \<open>e\<close> with \<open>2 ^ e \<le> a / b < 2 ^ (e + 1)\<close>, from the bit lengths.\<close>

definition binary_exponent :: "nat \<Rightarrow> nat \<Rightarrow> int" where
  "binary_exponent a b =
     (let d = int (floorlog 2 a) - int (floorlog 2 b)
      in if pow2 d \<le> of_nat a / of_nat b then d else d - 1)"

definition double_quot :: "nat \<Rightarrow> nat \<Rightarrow> rat" where
  "double_quot a b =
     (if a = 0 then 0
      else let e = binary_exponent a b
           in of_int (round_half_even (of_nat a / of_nat b * pow2 (52 - e))) * pow2 (e - 52))"

subsection \<open>Lexicons as \<^verbatim>\<open>json.load\<close> returns them\<close>

text \<open>
  \<^verbatim>\<open>load_lexicon\<close> stores the parsed file whatever its shape. The methods above are the
  program on lexicons of the declared type; here are the same methods on any parsed JSON
  value, with the three raises a value of another shape causes: a lexicon that is no dict
  has no \<^verbatim>\<open>keys\<close> (line 131), \<^verbatim>\<open>extend\<close> needs an iterable (line 134), and a key of the
  \<^verbatim>\<open>Counter\<close> must be hashable (line 138).

  A JSON object carries the items of the parsed dict in order. Numbers are the finite
  ones, as rationals, so that \<^verbatim>\<open>1\<close> and \<^verbatim>\<open>1.0\<close> are one number.
\<close>

datatype json =
    JNull
  | JBool bool
  | JNumber rat
  | JString string
  | JArray "json list"
  | JObject "(string \<times> json) list"

text \<open>
  What \<^verbatim>\<open>extend\<close> appends: the elements of a list, the characters of a string, the keys of
  a dict; any other value is not iterable.
\<close>

fun iterate :: "json \<Rightarrow> error + json list" where
  "iterate (JArray xs) = Inr xs"
| "iterate (JString s) = Inr (map (\<lambda>ch. JString [ch]) s)"
| "iterate (JObject items) = Inr (map (\<lambda>item. JString (fst item)) items)"
| "iterate JNull = Inl TypeError"
| "iterate (JBool b) = Inl TypeError"
| "iterate (JNumber q) = Inl TypeError"

text \<open>
  The key a value is in a dict: lists and dicts are unhashable; \<^verbatim>\<open>True\<close> and \<^verbatim>\<open>False\<close> hash
  and compare as 1 and 0. Values that Python takes for equal keys are one key here, named
  by their common value.
\<close>

datatype key = KNone | KNumber rat | KString string

fun hash_key :: "json \<Rightarrow> error + key" where
  "hash_key JNull = Inr KNone"
| "hash_key (JBool b) = Inr (KNumber (if b then 1 else 0))"
| "hash_key (JNumber q) = Inr (KNumber q)"
| "hash_key (JString s) = Inr (KString s)"
| "hash_key (JArray xs) = Inl TypeError"
| "hash_key (JObject items) = Inl TypeError"

record 'f nrclex_j =
  lexicon_j :: json
  words_j :: "string list"
  affect_list_j :: "json list"
  affect_dict_j :: "(string \<times> json) list"
  raw_emotion_scores_j :: "(key \<times> nat) list"
  affect_frequencies_j :: "(key \<times> 'f) list"

definition load_lexicon_j ::
  "(path \<Rightarrow> error + json) \<Rightarrow> 'f nrclex_j \<Rightarrow> path \<Rightarrow> path list \<times> (error + 'f nrclex_j)" where
  "load_lexicon_j reader self p =
     ([p], case reader p of Inl e \<Rightarrow> Inl e | Inr parsed \<Rightarrow> Inr (self\<lparr>lexicon_j := parsed\<rparr>))"

fun match_words_j ::
  "(string \<times> json) list \<Rightarrow> string list \<Rightarrow> json list \<times> (string \<times> json) list
     \<Rightarrow> error + json list \<times> (string \<times> json) list" where
  "match_words_j items [] acc = Inr acc"
| "match_words_j items (word # rest) (al, ad) =
     (case map_of items word of
        None \<Rightarrow> match_words_j items rest (al, ad)
      | Some v \<Rightarrow>
          (case iterate v of
             Inl e \<Rightarrow> Inl e
           | Inr xs \<Rightarrow> match_words_j items rest (al @ xs, dict_set word v ad)))"

fun tally_j :: "json list \<Rightarrow> (key \<times> nat) list \<Rightarrow> error + (key \<times> nat) list" where
  "tally_j [] c = Inr c"
| "tally_j (word # rest) c =
     (case hash_key word of
        Inl e \<Rightarrow> Inl e
      | Inr k \<Rightarrow> tally_j rest (dict_set k (counter_get c k + 1) c))"

definition build_word_affect_j ::
  "(nat \<Rightarrow> nat \<Rightarrow> 'f) \<Rightarrow> 'f nrclex_j \<Rightarrow> error + 'f nrclex_j" where
  "build_word_affect_j quot self =
     (case lexicon_j self of
        JObject items \<Rightarrow>
          (case match_words_j items (words_j self) ([], []) of
             Inl e \<Rightarrow> Inl e
           | Inr (al, ad) \<Rightarrow>
               (case tally_j al [] of
                  Inl e \<Rightarrow> Inl e
                | Inr c \<Rightarrow>
                    (case percent_loop quot c (sum_list (map snd c)) (map fst c) [] of
                       Inl e \<Rightarrow> Inl e
                     | Inr affect_percent \<Rightarrow>
                         Inr (self\<lparr>affect_list_j := al, affect_dict_j := ad,
                                   raw_emotion_scores_j := c,
                                   affect_frequencies_j := affect_percent\<rparr>))))
      | _ \<Rightarrow> Inl AttributeError)"

definition load_token_list_j ::
  "(nat \<Rightarrow> nat \<Rightarrow> 'f) \<Rightarrow> 'f nrclex_j \<Rightarrow> string list \<Rightarrow> error option \<times> 'f nrclex_j" where
  "load_token_list_j quot self token_list =
     (let self1 = self\<lparr>words_j := token_list\<rparr>
      in case build_word_affect_j quot self1 of
           Inl e \<Rightarrow> (Some e, self1)
         | Inr self2 \<Rightarrow> (None, self2))"

text \<open>The declared type \<^verbatim>\<open>dict[str, list[str]]\<close>, as a test on a parsed value.\<close>

fun is_str :: "json \<Rightarrow> bool" where
  "is_str (JString s) = True"
| "is_str v = False"

fun is_str_list :: "json \<Rightarrow> bool" where
  "is_str_list (JArray xs) = list_all is_str xs"
| "is_str_list v = False"

fun is_declared_type :: "json \<Rightarrow> bool" where
  "is_declared_type (JObject items) = list_all (\<lambda>item. is_str_list (snd item)) items"
| "is_declared_type v = False"

text \<open>
  The lexicon of the declared type that a well-shaped parsed value is, and the parsed
  value of a label list.
\<close>

fun labels_of :: "json \<Rightarrow> string list" where
  "labels_of (JArray xs) = map (\<lambda>x. case x of JString s \<Rightarrow> s | _ \<Rightarrow> []) xs"
| "labels_of v = []"

fun lexicon_of :: "json \<Rightarrow> lexicon_map" where
  "lexicon_of (JObject items) = map_option labels_of \<circ> map_of items"
| "lexicon_of v = Map.empty"

subsection \<open>The specification's derived state\<close>

text \<open>
  The matched-emotion list in the specification's words: the concatenation, in token
  order, of the emotion lists of the tokens found in the lexicon.
\<close>

definition matched_emotions :: "lexicon_map \<Rightarrow> string list \<Rightarrow> string list" where
  "matched_emotions entries token_list =
     concat (map (\<lambda>t. the (entries t)) (filter (\<lambda>t. entries t \<noteq> None) token_list))"

text \<open>
  The frequencies in the specification's words: each label's raw count over the total of
  all raw counts.
\<close>

definition frequencies_of ::
  "(nat \<Rightarrow> nat \<Rightarrow> 'f) \<Rightarrow> ('k \<times> nat) list \<Rightarrow> ('k \<times> 'f) list" where
  "frequencies_of quot c = map (\<lambda>(k, n). (k, quot n (sum_list (map snd c)))) c"

abbreviation after_load :: "(nat \<Rightarrow> nat \<Rightarrow> 'f) \<Rightarrow> 'f nrclex \<Rightarrow> string list \<Rightarrow> 'f nrclex" where
  "after_load quot self token_list \<equiv> snd (load_token_list quot self token_list)"

text \<open>The scenario of the specification: an object holding a two-word lexicon.\<close>

definition scenario_lexicon :: lexicon_map where
  "scenario_lexicon =
     [''happy'' \<mapsto> [''joy'', ''positive''], ''sad'' \<mapsto> [''sadness'', ''negative'']]"

definition scenario_object :: "rat nrclex" where
  "scenario_object = new_object\<lparr>lexicon := scenario_lexicon\<rparr>"

definition scenario_tokens :: "string list" where
  "scenario_tokens = [''happy'', ''happy'', ''sad'']"

definition scenario_reader :: "path \<Rightarrow> error + lexicon_map" where
  "scenario_reader p = (if p = ''lexicon.json'' then Inr scenario_lexicon else Inl OSError)"

text \<open>A lexicon of the declared type whose only word has no emotion label.\<close>

definition bare_object :: "rat nrclex" where
  "bare_object = new_object\<lparr>lexicon := [''the'' \<mapsto> []]\<rparr>"

text \<open>
  A lexicon file that \<^verbatim>\<open>load_lexicon\<close> accepts and whose first entry is a number, and one
  whose first entry holds a list inside the list.
\<close>

definition malformed_object :: "rat nrclex_j" where
  "malformed_object =
     \<lparr>lexicon_j = JObject [(''happy'', JNumber 5), (''sad'', JArray [JString ''sadness''])],
      words_j = [], affect_list_j = [], affect_dict_j = [], raw_emotion_scores_j = [],
      affect_frequencies_j = []\<rparr>"

definition nested_object :: "rat nrclex_j" where
  "nested_object =
     \<lparr>lexicon_j = JObject [(''happy'', JArray [JArray [JString ''joy'']]),
                           (''sad'', JArray [JString ''sadness''])],
      words_j = [], affect_list_j = [], affect_dict_j = [], raw_emotion_scores_j = [],
      affect_frequencies_j = []\<rparr>"

definition scenario_object_j :: "rat nrclex_j" where
  "scenario_object_j =
     \<lparr>lexicon_j = JObject [(''happy'', JArray [JString ''joy'', JString ''positive'']),
                           (''sad'', JArray [JString ''sadness'', JString ''negative''])],
      words_j = [], affect_list_j = [], affect_dict_j = [], raw_emotion_scores_j = [],
      affect_frequencies_j = []\<rparr>"

section \<open>Properties of the dict operations and the loops\<close>

lemma dict_set_keys:
  "map fst (dict_set k v d) = (if k \<in> fst ` set d then map fst d else map fst d @ [k])"
  by (induction d) auto

lemma dict_set_distinct: "distinct (map fst d) \<Longrightarrow> distinct (map fst (dict_set k v d))"
  by (simp add: dict_set_keys)

lemma map_of_dict_set: "map_of (dict_set k v d) = (map_of d)(k \<mapsto> v)"
  by (induction d) (auto simp: fun_eq_iff)

lemma dict_set_fresh: "k \<notin> fst ` set d \<Longrightarrow> dict_set k v d = d @ [(k, v)]"
  by (induction d) auto

lemma counter_get_dict_set:
  "counter_get (dict_set k n c) k' = (if k' = k then n else counter_get c k')"
  by (simp add: counter_get_def map_of_dict_set)

lemma sum_dict_set:
  "distinct (map fst c) \<Longrightarrow>
   sum_list (map snd (dict_set k (counter_get c k + n) c)) = sum_list (map snd c) + n"
proof (induction c)
  case Nil
  then show ?case by (simp add: counter_get_def)
next
  case (Cons p c)
  show ?case
  proof (cases "fst p = k")
    case True
    then show ?thesis by (cases p) (simp add: counter_get_def)
  next
    case False
    with Cons show ?thesis by (cases p) (simp add: counter_get_def)
  qed
qed

lemma tally_distinct: "distinct (map fst c) \<Longrightarrow> distinct (map fst (tally es c))"
  by (induction es arbitrary: c) (simp_all add: dict_set_distinct)

lemma dict_set_key_set: "fst ` set (dict_set k v d) = insert k (fst ` set d)"
  by (induction d) auto

lemma tally_keys: "fst ` set (tally es c) = fst ` set c \<union> set es"
  by (induction es arbitrary: c) (simp_all add: dict_set_key_set)

lemma tally_count: "counter_get (tally es c) k = counter_get c k + count_list es k"
  by (induction es arbitrary: c) (simp_all add: counter_get_dict_set)

lemma sum_dict_set_Suc:
  "distinct (map fst c) \<Longrightarrow>
   sum_list (map snd (dict_set k (Suc (counter_get c k)) c)) = Suc (sum_list (map snd c))"
  using sum_dict_set [of c k 1] by simp

lemma tally_sum:
  "distinct (map fst c) \<Longrightarrow> sum_list (map snd (tally es c)) = sum_list (map snd c) + length es"
  by (induction es arbitrary: c) (simp_all add: sum_dict_set_Suc dict_set_distinct)

lemma match_words_list:
  "fst (match_words entries ws (al, ad)) =
     al @ concat (map (\<lambda>w. case entries w of None \<Rightarrow> [] | Some es \<Rightarrow> es) ws)"
  by (induction ws arbitrary: al ad) (auto split: option.splits)

lemma match_words_dict:
  "map_of (snd (match_words entries ws (al, ad))) = map_of ad ++ (entries |` set ws)"
  by (induction ws arbitrary: al ad)
     (auto simp: map_of_dict_set fun_eq_iff map_add_def restrict_map_def split: option.splits)

lemma match_words_dict_distinct:
  "distinct (map fst ad) \<Longrightarrow> distinct (map fst (snd (match_words entries ws (al, ad))))"
  by (induction ws arbitrary: al ad) (auto simp: dict_set_distinct split: option.splits)

subsection \<open>The frequency loop never divides by zero\<close>

text \<open>
  The division does raise where it is evaluated with a zero total: a comprehension over at
  least one key fails. After the counting loop the total is the length of the label list,
  so a zero total leaves no key to divide for.
\<close>

lemma percent_loop_zero:
  "keys \<noteq> [] \<Longrightarrow> percent_loop quot c 0 keys acc = Inl ZeroDivisionError"
  by (cases keys) (simp_all add: float_div_def)

lemma percent_loop_nonzero:
  "sum_values \<noteq> 0 \<Longrightarrow> distinct keys \<Longrightarrow> set keys \<inter> fst ` set acc = {} \<Longrightarrow>
   percent_loop quot c sum_values keys acc =
     Inr (acc @ map (\<lambda>k. (k, quot (counter_get c k) sum_values)) keys)"
proof (induction keys arbitrary: acc)
  case Nil
  then show ?case by simp
next
  case (Cons key rest)
  from Cons.prems have fresh: "key \<notin> fst ` set acc" by auto
  have step: "dict_set key (quot (counter_get c key) sum_values) acc
                = acc @ [(key, quot (counter_get c key) sum_values)]"
    using fresh by (rule dict_set_fresh)
  have disj: "set rest \<inter> fst ` set (acc @ [(key, quot (counter_get c key) sum_values)]) = {}"
    using Cons.prems by auto
  have "percent_loop quot c sum_values rest (acc @ [(key, quot (counter_get c key) sum_values)])
          = Inr ((acc @ [(key, quot (counter_get c key) sum_values)])
                  @ map (\<lambda>k. (k, quot (counter_get c k) sum_values)) rest)"
    using Cons.prems disj by (intro Cons.IH) auto
  then show ?case
    using Cons.prems(1) by (simp add: float_div_def step)
qed

lemma tally_total: "sum_list (map snd (tally es [])) = length es"
  by (simp add: tally_sum)

lemma counter_get_own:
  "distinct (map fst c) \<Longrightarrow> (k, n) \<in> set c \<Longrightarrow> counter_get c k = n"
  by (simp add: counter_get_def)

lemma percent_loop_tally:
  "percent_loop quot (tally es []) (sum_list (map snd (tally es []))) (map fst (tally es [])) []
     = Inr (frequencies_of quot (tally es []))"
proof (cases "es = []")
  case True
  then show ?thesis by (simp add: frequencies_of_def)
next
  case False
  let ?c = "tally es []"
  have d: "distinct (map fst ?c)" by (simp add: tally_distinct)
  have nz: "sum_list (map snd ?c) \<noteq> 0" using False by (simp add: tally_total)
  have "percent_loop quot ?c (sum_list (map snd ?c)) (map fst ?c) []
          = Inr ([] @ map (\<lambda>k. (k, quot (counter_get ?c k) (sum_list (map snd ?c)))) (map fst ?c))"
    using nz d by (intro percent_loop_nonzero) auto
  moreover have "map (\<lambda>k. (k, quot (counter_get ?c k) (sum_list (map snd ?c)))) (map fst ?c)
                   = frequencies_of quot ?c"
    unfolding frequencies_of_def using d by (auto simp: counter_get_own)
  ultimately show ?thesis by simp
qed

subsection \<open>The methods in closed form\<close>

lemma build_word_affect_total:
  "build_word_affect quot self =
     Inr (self\<lparr>affect_list := fst (match_words (lexicon self) (words self) ([], [])),
               affect_dict := snd (match_words (lexicon self) (words self) ([], [])),
               raw_emotion_scores :=
                 tally (fst (match_words (lexicon self) (words self) ([], []))) [],
               affect_frequencies :=
                 frequencies_of quot
                   (tally (fst (match_words (lexicon self) (words self) ([], []))) [])\<rparr>)"
  by (simp add: build_word_affect_def Let_def case_prod_beta percent_loop_tally)

lemma load_token_list_total:
  "load_token_list quot self token_list =
     (None,
      self\<lparr>words := token_list,
           affect_list := fst (match_words (lexicon self) token_list ([], [])),
           affect_dict := snd (match_words (lexicon self) token_list ([], [])),
           raw_emotion_scores := tally (fst (match_words (lexicon self) token_list ([], []))) [],
           affect_frequencies :=
             frequencies_of quot
               (tally (fst (match_words (lexicon self) token_list ([], []))) [])\<rparr>)"
  by (simp add: load_token_list_def Let_def build_word_affect_total)

subsection \<open>The maximum and the selection loop\<close>

lemma max_loop_Max: "max_loop m xs = Max (set (m # xs))"
proof (induction xs arbitrary: m)
  case Nil
  then show ?case by simp
next
  case (Cons x xs)
  have "max_loop m (x # xs) = Max (set ((if m < x then x else m) # xs))"
    by (simp add: Cons.IH)
  also have "\<dots> = Max (insert (max m x) (set xs))"
    by (simp add: max_def not_less)
  also have "\<dots> = Max (set (m # x # xs))"
  proof (cases "xs = []")
    case True
    then show ?thesis by (simp add: max.commute)
  next
    case False
    then show ?thesis by (simp add: max.assoc)
  qed
  finally show ?case .
qed

lemma max_values_Max: "vs \<noteq> [] \<Longrightarrow> max_values vs = Inr (Max (set vs))"
  by (cases vs) (simp_all add: max_values_def max_loop_Max del: max_loop.simps)

lemma top_loop_filter:
  "distinct (map fst d) \<Longrightarrow> set ps \<subseteq> set d \<Longrightarrow>
   top_loop d mx (map fst ps) acc = Inr (acc @ filter (\<lambda>p. snd p = mx) ps)"
proof (induction ps arbitrary: acc)
  case Nil
  then show ?case by simp
next
  case (Cons p ps)
  obtain k v where p: "p = (k, v)" by (cases p)
  with Cons.prems have "map_of d k = Some v" by simp
  moreover have "top_loop d mx (map fst ps) acc' = Inr (acc' @ filter (\<lambda>p. snd p = mx) ps)"
    for acc'
    using Cons.prems by (intro Cons.IH) auto
  ultimately show ?case by (simp add: p)
qed

lemma top_emotions_filter:
  assumes "distinct (map fst (affect_frequencies self))" and "affect_frequencies self \<noteq> []"
  shows "top_emotions self =
           Inr (filter (\<lambda>p. snd p = Max (snd ` set (affect_frequencies self)))
                  (affect_frequencies self))"
  using assms by (simp add: top_emotions_def max_values_Max top_loop_filter)

lemma top_emotions_empty: "affect_frequencies self = [] \<Longrightarrow> top_emotions self = Inl ValueError"
  by (simp add: top_emotions_def max_values_def)

lemma frequencies_of_keys: "map fst (frequencies_of quot c) = map fst c"
  by (simp add: frequencies_of_def case_prod_beta)

lemma match_words_spec:
  "fst (match_words entries ws ([], [])) = matched_emotions entries ws"
proof -
  have "concat (map (\<lambda>w. case entries w of None \<Rightarrow> [] | Some es \<Rightarrow> es) ws)
          = concat (map (\<lambda>t. the (entries t)) (filter (\<lambda>t. entries t \<noteq> None) ws))"
    by (induction ws) (auto split: option.splits)
  then show ?thesis by (simp add: match_words_list matched_emotions_def)
qed

lemma match_words_no_key:
  "\<forall>t \<in> set ws. entries t = None \<Longrightarrow> match_words entries ws acc = acc"
  by (induction ws) (cases acc; simp)+

lemma load_without_key:
  assumes "\<forall>t \<in> set token_list. lexicon self t = None"
  shows "load_token_list quot self token_list =
           (None, self\<lparr>words := token_list, affect_list := [], affect_dict := [],
                        raw_emotion_scores := [], affect_frequencies := []\<rparr>)"
  using assms by (simp add: load_token_list_total match_words_no_key frequencies_of_def)

lemma exact_quot_self: "0 < n \<Longrightarrow> exact_quot n n = 1"
  by (simp add: exact_quot_def)

lemma counter_get_empty: "counter_get [] k = 0"
  by (simp add: counter_get_def)

lemma after_load_distinct_labels:
  "distinct (map fst (affect_frequencies (after_load quot self token_list)))"
  by (simp add: load_token_list_total frequencies_of_keys tally_distinct)

lemma matched_emotions_nonempty:
  "matched_emotions entries ws \<noteq> [] \<longleftrightarrow> (\<exists>t \<in> set ws. \<exists>es. entries t = Some es \<and> es \<noteq> [])"
  by (fastforce simp: matched_emotions_def)

lemma exact_frequencies_sum:
  "sum_list (map snd (map (\<lambda>(k, n). (k, exact_quot n d)) c))
     = exact_quot (sum_list (map snd c)) d"
  by (induction c) (auto simp: exact_quot_def add_divide_distrib)

subsection \<open>The quotient of doubles is accurate to 53 bits\<close>

lemma pow2_powi: "pow2 k = 2 powi k"
  by (simp add: pow2_def power_int_def field_simps)

lemma pow2_pos: "0 < pow2 k"
  by (simp add: pow2_powi)

lemma pow2_add: "pow2 (i + j) = pow2 i * pow2 j"
  by (simp add: pow2_powi power_int_add)

lemma round_half_even_near: "\<bar>of_int (round_half_even x) - x\<bar> \<le> 1 / 2"
proof -
  have "of_int \<lfloor>x\<rfloor> \<le> x" "x < of_int \<lfloor>x\<rfloor> + 1"
    by linarith+
  then show ?thesis
    by (auto simp: round_half_even_def Let_def abs_le_iff)
qed

lemma binary_exponent_lower:
  assumes "0 < a" "0 < b"
  shows "pow2 (binary_exponent a b) \<le> of_nat a / of_nat b"
proof (cases "pow2 (int (floorlog 2 a) - int (floorlog 2 b)) \<le> of_nat a / of_nat b")
  case True
  then show ?thesis by (simp add: binary_exponent_def)
next
  case False
  let ?la = "floorlog 2 a" and ?lb = "floorlog 2 b"
  have la: "0 < ?la" using assms by (simp add: floorlog_def)
  have "2 ^ (?la - 1) \<le> a" "b < 2 ^ ?lb"
    using floorlog_bounds [of a 2] floorlog_bounds [of b 2] assms by simp_all
  then have A: "(2::rat) ^ (?la - 1) \<le> of_nat a" and B: "of_nat b < (2::rat) ^ ?lb"
    by (metis of_nat_le_iff of_nat_numeral of_nat_power,
        metis of_nat_less_iff of_nat_numeral of_nat_power)
  have "pow2 (int ?la - int ?lb - 1) = 2 ^ (?la - 1) / 2 ^ ?lb"
  proof -
    have "int ?la - int ?lb - 1 = int (?la - 1) + (- int ?lb)" using la by simp
    then have "pow2 (int ?la - int ?lb - 1) = pow2 (int (?la - 1)) * pow2 (- int ?lb)"
      by (simp only: pow2_add)
    also have "\<dots> = 2 ^ (?la - 1) / 2 ^ ?lb"
      by (simp add: pow2_powi power_int_minus field_simps)
    finally show ?thesis .
  qed
  also have "\<dots> \<le> of_nat a / 2 ^ ?lb"
    using A by (simp add: divide_right_mono)
  also have "\<dots> \<le> of_nat a / of_nat b"
    using B assms by (intro divide_left_mono) (auto intro: less_imp_le)
  finally show ?thesis using False by (simp add: binary_exponent_def)
qed

lemma double_quot_accurate:
  assumes "0 < b"
  shows "\<bar>double_quot a b - of_nat a / of_nat b\<bar> \<le> (of_nat a / of_nat b) / 2 ^ 53"
proof (cases "a = 0")
  case True
  then show ?thesis by (simp add: double_quot_def)
next
  case False
  define x :: rat where "x = of_nat a / of_nat b"
  define e where "e = binary_exponent a b"
  define s where "s = x * pow2 (52 - e)"
  define m where "m = round_half_even s"
  have low: "pow2 e \<le> x"
    unfolding e_def x_def using False assms by (intro binary_exponent_lower) auto
  have inv: "pow2 (52 - e) * pow2 (e - 52) = 1"
    using pow2_add [of "52 - e" "e - 52"] by (simp add: pow2_def)
  have big: "2 ^ 52 \<le> s"
  proof -
    have "pow2 e * pow2 (52 - e) = 2 ^ 52"
      using pow2_add [of e "52 - e"] by (simp add: pow2_def)
    moreover have "pow2 e * pow2 (52 - e) \<le> x * pow2 (52 - e)"
      using low pow2_pos [of "52 - e"] by (intro mult_right_mono) auto
    ultimately show ?thesis by (simp add: s_def)
  qed
  have dq: "double_quot a b = of_int m * pow2 (e - 52)"
    using False by (simp add: double_quot_def Let_def m_def s_def x_def e_def)
  have xs: "x = s * pow2 (e - 52)"
    using inv by (simp add: s_def mult.assoc)
  have "\<bar>double_quot a b - x\<bar> = \<bar>of_int m - s\<bar> * pow2 (e - 52)"
    using pow2_pos [of "e - 52"]
    by (simp add: dq xs left_diff_distrib [symmetric] abs_mult)
  also have "\<dots> \<le> (1 / 2) * pow2 (e - 52)"
    using round_half_even_near [of s] pow2_pos [of "e - 52"]
    unfolding m_def by (intro mult_right_mono) auto
  also have "\<dots> \<le> (s / 2 ^ 53) * pow2 (e - 52)"
    using big pow2_pos [of "e - 52"] by (intro mult_right_mono) (auto simp: field_simps)
  also have "\<dots> = x / 2 ^ 53"
    by (simp add: xs)
  finally show ?thesis by (simp add: x_def)
qed

text \<open>
  The nearest integer, and the quotients of the scenario: \<open>2 / 6\<close> and \<open>1 / 6\<close> as doubles.
\<close>

lemma round_half_even_eq:
  assumes "\<bar>x - of_int m\<bar> < 1 / 2"
  shows "round_half_even x = m"
proof (cases "of_int m \<le> x")
  case True
  with assms have "\<lfloor>x\<rfloor> = m" by (intro floor_unique) (auto simp: abs_less_iff)
  with assms True show ?thesis by (simp add: round_half_even_def Let_def abs_less_iff)
next
  case False
  with assms have "\<lfloor>x\<rfloor> = m - 1" by (intro floor_unique) (auto simp: abs_less_iff)
  with assms False show ?thesis by (simp add: round_half_even_def Let_def abs_less_iff)
qed

lemma floorlog_small: "floorlog 2 (Suc 0) = 1" "floorlog 2 2 = 2" "floorlog 2 6 = 3"
  by (simp_all add: compute_floorlog)

lemma binary_exponent_third: "binary_exponent 2 6 = - 2"
  by (simp add: binary_exponent_def pow2_def Let_def floorlog_small)

lemma binary_exponent_sixth: "binary_exponent (Suc 0) 6 = - 3"
  by (simp add: binary_exponent_def pow2_def Let_def floorlog_small)

lemma round_third:
  "round_half_even (of_nat 2 / of_nat 6 * pow2 (52 - (- 2))) = 6004799503160661"
  by (rule round_half_even_eq) (simp add: pow2_def)

lemma round_sixth:
  "round_half_even (of_nat (Suc 0) / of_nat 6 * pow2 (52 - (- 3))) = 6004799503160661"
  by (rule round_half_even_eq) (simp add: pow2_def)

lemma double_quot_third: "double_quot 2 6 = 6004799503160661 / 2 ^ 54"
  unfolding double_quot_def Let_def binary_exponent_third round_third by (simp add: pow2_def)

lemma double_quot_sixth: "double_quot (Suc 0) 6 = 6004799503160661 / 2 ^ 55"
  unfolding double_quot_def Let_def binary_exponent_sixth round_sixth by (simp add: pow2_def)

text \<open>
  Quotients that are each within the relative error \<open>eps\<close> of the exact ones sum to within
  \<open>eps\<close> times the exact sum.
\<close>

lemma frequencies_sum_within:
  fixes quot :: "nat \<Rightarrow> nat \<Rightarrow> rat"
  assumes "\<forall>a b. 0 < b \<longrightarrow> \<bar>quot a b - of_nat a / of_nat b\<bar> \<le> eps * (of_nat a / of_nat b)"
    and "0 < d"
  shows "\<bar>sum_list (map snd (map (\<lambda>(k, n). (k, quot n d)) c))
            - of_nat (sum_list (map snd c)) / of_nat d\<bar>
           \<le> eps * (of_nat (sum_list (map snd c)) / of_nat d)"
proof (induction c)
  case Nil
  then show ?case by simp
next
  case (Cons p c)
  obtain k n where p: "p = (k, n)" by (cases p)
  have one: "\<bar>quot n d - of_nat n / of_nat d\<bar> \<le> eps * (of_nat n / of_nat d)"
    using assms by blast
  let ?S = "sum_list (map snd (map (\<lambda>(k, n). (k, quot n d)) c))"
  let ?T = "of_nat (sum_list (map snd c)) / (of_nat d :: rat)"
  have "\<bar>(quot n d + ?S) - (of_nat n / of_nat d + ?T)\<bar>
          \<le> \<bar>quot n d - of_nat n / of_nat d\<bar> + \<bar>?S - ?T\<bar>"
    by linarith
  also have "\<dots> \<le> eps * (of_nat n / of_nat d) + eps * ?T"
    using one Cons.IH by linarith
  finally show ?case
    by (simp add: p add_divide_distrib distrib_left)
qed

subsection \<open>The methods on parsed JSON\<close>

lemma iterate_error: "iterate v = Inl e \<Longrightarrow> e = TypeError"
  by (cases v) auto

lemma hash_key_error: "hash_key v = Inl e \<Longrightarrow> e = TypeError"
  by (cases v) auto

lemma match_words_j_error: "match_words_j items ws acc = Inl e \<Longrightarrow> e = TypeError"
proof (induction items ws acc rule: match_words_j.induct)
  case (1 items acc)
  then show ?case by simp
next
  case (2 items word rest al ad)
  then show ?case
    by (auto split: option.splits sum.splits dest: iterate_error)
qed

lemma tally_j_error: "tally_j ws c = Inl e \<Longrightarrow> e = TypeError"
  by (induction ws arbitrary: c) (auto split: sum.splits dest: hash_key_error)

lemma tally_j_tally: "tally_j ws c = Inr c' \<Longrightarrow> \<exists>ks. c' = tally ks c"
proof (induction ws arbitrary: c)
  case Nil
  then have "c' = tally [] c" by simp
  then show ?case by blast
next
  case (Cons w ws)
  then obtain k where k: "hash_key w = Inr k"
    and rest: "tally_j ws (dict_set k (counter_get c k + 1) c) = Inr c'"
    by (auto split: sum.splits)
  from Cons.IH [OF rest] obtain ks where "c' = tally ks (dict_set k (counter_get c k + 1) c)"
    by blast
  then have "c' = tally (k # ks) c" by simp
  then show ?case by blast
qed

lemma percent_after_tally_j:
  assumes "tally_j al [] = Inr c"
  shows "percent_loop quot c (sum_list (map snd c)) (map fst c) [] = Inr (frequencies_of quot c)"
proof -
  from tally_j_tally [OF assms] obtain ks where "c = tally ks []" by blast
  then show ?thesis by (simp only: percent_loop_tally)
qed

lemma build_word_affect_j_closed:
  "build_word_affect_j quot self =
     (case lexicon_j self of
        JObject items \<Rightarrow>
          (case match_words_j items (words_j self) ([], []) of
             Inl e \<Rightarrow> Inl e
           | Inr (al, ad) \<Rightarrow>
               (case tally_j al [] of
                  Inl e \<Rightarrow> Inl e
                | Inr c \<Rightarrow>
                    Inr (self\<lparr>affect_list_j := al, affect_dict_j := ad,
                              raw_emotion_scores_j := c,
                              affect_frequencies_j := frequencies_of quot c\<rparr>)))
      | _ \<Rightarrow> Inl AttributeError)"
  by (auto simp: build_word_affect_j_def percent_after_tally_j
           split: json.splits sum.splits prod.splits)

lemma build_word_affect_j_error:
  "build_word_affect_j quot self = Inl e \<Longrightarrow> e = TypeError \<or> e = AttributeError"
  by (auto simp: build_word_affect_j_closed
           split: json.splits sum.splits prod.splits
           dest: match_words_j_error tally_j_error)

lemma load_token_list_j_failure:
  assumes "fst (load_token_list_j quot self token_list) = Some e"
  shows "(e = TypeError \<or> e = AttributeError)
         \<and> snd (load_token_list_j quot self token_list) = self\<lparr>words_j := token_list\<rparr>"
  using assms
  by (auto simp: load_token_list_j_def Let_def split: sum.splits
           dest: build_word_affect_j_error)

lemma build_word_affect_j_forgets:
  "build_word_affect_j quot
     (self\<lparr>affect_list_j := al, affect_dict_j := ad, raw_emotion_scores_j := c,
            affect_frequencies_j := fr\<rparr>) = Inr s'
   \<longleftrightarrow> build_word_affect_j quot self = Inr s'"
  by (auto simp: build_word_affect_j_closed split: json.splits sum.splits prod.splits)

lemma load_token_list_j_success:
  assumes "fst (load_token_list_j quot self token_list) = None"
  shows "words_j (snd (load_token_list_j quot self token_list)) = token_list
         \<and> load_token_list_j quot
              (self\<lparr>words_j := w, affect_list_j := al, affect_dict_j := ad,
                    raw_emotion_scores_j := c, affect_frequencies_j := fr\<rparr>) token_list
             = load_token_list_j quot self token_list"
proof -
  from assms obtain s' where s': "build_word_affect_j quot (self\<lparr>words_j := token_list\<rparr>) = Inr s'"
    by (auto simp: load_token_list_j_def Let_def split: sum.splits)
  then have w: "words_j s' = token_list"
    by (auto simp: build_word_affect_j_closed split: json.splits sum.splits prod.splits)
  have eq: "(self\<lparr>words_j := w, affect_list_j := al, affect_dict_j := ad,
                  raw_emotion_scores_j := c, affect_frequencies_j := fr\<rparr>)\<lparr>words_j := token_list\<rparr>
             = (self\<lparr>words_j := token_list\<rparr>)\<lparr>affect_list_j := al, affect_dict_j := ad,
                  raw_emotion_scores_j := c, affect_frequencies_j := fr\<rparr>"
    by simp
  have b2: "build_word_affect_j quot
              ((self\<lparr>words_j := w, affect_list_j := al, affect_dict_j := ad,
                  raw_emotion_scores_j := c, affect_frequencies_j := fr\<rparr>)\<lparr>words_j := token_list\<rparr>)
              = Inr s'"
    using s' by (simp only: eq build_word_affect_j_forgets)
  have "load_token_list_j quot self token_list = (None, s')"
    unfolding load_token_list_j_def Let_def s' by simp
  moreover have "load_token_list_j quot
                   (self\<lparr>words_j := w, affect_list_j := al, affect_dict_j := ad,
                         raw_emotion_scores_j := c, affect_frequencies_j := fr\<rparr>) token_list
                   = (None, s')"
    unfolding load_token_list_j_def Let_def b2 by simp
  ultimately show ?thesis using w by simp
qed


subsection \<open>Parsed values of the declared type\<close>

lemma is_str_list_iterate:
  "is_str_list v \<Longrightarrow> iterate v = Inr (map JString (labels_of v))"
proof (cases v)
  case (JArray xs)
  assume "is_str_list v"
  with JArray have "list_all is_str xs" by simp
  then have "map JString (map (\<lambda>x. case x of JString s \<Rightarrow> s | _ \<Rightarrow> []) xs) = xs"
  proof (induction xs)
    case Nil
    then show ?case by simp
  next
    case (Cons x xs)
    then show ?case by (cases x) simp_all
  qed
  with JArray show ?thesis by simp
qed simp_all

lemma dict_set_map_values:
  "map (apsnd f) (dict_set k v d) = dict_set k (f v) (map (apsnd f) d)"
  by (induction d) auto

lemma dict_set_map_keys:
  "inj f \<Longrightarrow> map (apfst f) (dict_set k v d) = dict_set (f k) v (map (apfst f) d)"
  by (induction d) (auto dest: injD)

lemma counter_get_map_keys:
  "inj f \<Longrightarrow> counter_get (map (apfst f) c) (f k) = counter_get c k"
proof (induction c)
  case Nil
  then show ?case by (simp add: counter_get_def)
next
  case (Cons p c)
  then show ?case by (cases p) (auto simp: counter_get_def dest: injD)
qed

lemma inj_KString: "inj KString"
  by (simp add: inj_def)

lemma match_words_j_typed:
  assumes "list_all (\<lambda>item. is_str_list (snd item)) items"
  shows "\<exists>ad'. match_words_j items ws (map JString al, ad)
                  = Inr (map JString
                           (fst (match_words (lexicon_of (JObject items)) ws
                                   (al, map (apsnd labels_of) ad))), ad')
               \<and> map (apsnd labels_of) ad'
                  = snd (match_words (lexicon_of (JObject items)) ws
                           (al, map (apsnd labels_of) ad))"
proof (induction ws arbitrary: al ad)
  case Nil
  then show ?case by simp
next
  case (Cons word rest)
  show ?case
  proof (cases "map_of items word")
    case None
    with Cons.IH [of al ad] show ?thesis by simp
  next
    case (Some v)
    then have "(word, v) \<in> set items" by (rule map_of_SomeD)
    with assms have "is_str_list v" by (auto simp: list_all_iff)
    then have it: "iterate v = Inr (map JString (labels_of v))"
      by (rule is_str_list_iterate)
    from Cons.IH [of "al @ labels_of v" "dict_set word v ad"] Some it
    show ?thesis by (simp add: dict_set_map_values)
  qed
qed

lemma tally_j_typed:
  "tally_j (map JString xs) (map (apfst KString) c) = Inr (map (apfst KString) (tally xs c))"
proof (induction xs arbitrary: c)
  case Nil
  then show ?case by simp
next
  case (Cons x xs)
  have "dict_set (KString x) (counter_get (map (apfst KString) c) (KString x) + 1)
          (map (apfst KString) c)
        = map (apfst KString) (dict_set x (counter_get c x + 1) c)"
    by (simp only: counter_get_map_keys [OF inj_KString] dict_set_map_keys [OF inj_KString])
  with Cons.IH [of "dict_set x (counter_get c x + 1) c"] show ?case by simp
qed

lemma frequencies_of_map_keys:
  "frequencies_of quot (map (apfst f) c) = map (apfst f) (frequencies_of quot c)"
  by (simp add: frequencies_of_def case_prod_beta comp_def)

lemma load_token_list_j_typed:
  assumes "is_declared_type (lexicon_j self)"
  shows "fst (load_token_list_j quot self token_list) = None
         \<and> words_j (snd (load_token_list_j quot self token_list)) = token_list
         \<and> affect_list_j (snd (load_token_list_j quot self token_list))
             = map JString (affect_list
                 (after_load quot (new_object\<lparr>lexicon := lexicon_of (lexicon_j self)\<rparr>) token_list))
         \<and> map (apsnd labels_of) (affect_dict_j (snd (load_token_list_j quot self token_list)))
             = affect_dict
                 (after_load quot (new_object\<lparr>lexicon := lexicon_of (lexicon_j self)\<rparr>) token_list)
         \<and> raw_emotion_scores_j (snd (load_token_list_j quot self token_list))
             = map (apfst KString) (raw_emotion_scores
                 (after_load quot (new_object\<lparr>lexicon := lexicon_of (lexicon_j self)\<rparr>) token_list))
         \<and> affect_frequencies_j (snd (load_token_list_j quot self token_list))
             = map (apfst KString) (affect_frequencies
                 (after_load quot (new_object\<lparr>lexicon := lexicon_of (lexicon_j self)\<rparr>) token_list))"
proof -
  from assms obtain items where items: "lexicon_j self = JObject items"
    and wf: "list_all (\<lambda>item. is_str_list (snd item)) items"
    by (cases "lexicon_j self") auto
  let ?L = "lexicon_of (JObject items)"
  from match_words_j_typed [OF wf, of token_list "[]" "[]"]
  obtain ad' where m: "match_words_j items token_list ([], [])
                         = Inr (map JString (fst (match_words ?L token_list ([], []))), ad')"
    and ad': "map (apsnd labels_of) ad' = snd (match_words ?L token_list ([], []))"
    by auto
  have t: "tally_j (map JString (fst (match_words ?L token_list ([], [])))) []
             = Inr (map (apfst KString) (tally (fst (match_words ?L token_list ([], []))) []))"
    using tally_j_typed [of _ "[]"] by simp
  show ?thesis
    by (simp add: load_token_list_j_def Let_def build_word_affect_j_closed items m t ad'
          load_token_list_total frequencies_of_map_keys del: lexicon_of.simps)
qed

text \<open>
  On a lexicon of the declared type a load raises nothing, and every field afterwards is a
  function of the lexicon and the new tokens alone.
\<close>

lemma load_token_list_typed_state:
  "fst (load_token_list quot self token_list) = None
   \<and> words (after_load quot self token_list) = token_list
   \<and> affect_list (after_load quot self token_list) = matched_emotions (lexicon self) token_list
   \<and> map_of (affect_dict (after_load quot self token_list)) = lexicon self |` set token_list
   \<and> distinct (map fst (affect_dict (after_load quot self token_list)))
   \<and> (\<forall>label. counter_get (raw_emotion_scores (after_load quot self token_list)) label
                = count_list (matched_emotions (lexicon self) token_list) label)
   \<and> distinct (map fst (raw_emotion_scores (after_load quot self token_list)))
   \<and> fst ` set (raw_emotion_scores (after_load quot self token_list))
       = set (matched_emotions (lexicon self) token_list)
   \<and> affect_frequencies (after_load quot self token_list)
       = frequencies_of quot (raw_emotion_scores (after_load quot self token_list))
   \<and> after_load quot
        (self\<lparr>words := w, affect_list := al, affect_dict := ad,
              raw_emotion_scores := c, affect_frequencies := fr\<rparr>) token_list
       = after_load quot self token_list"
proof -
  have "map_of (snd (match_words (lexicon self) token_list ([], [])))
          = lexicon self |` set token_list"
    by (simp add: match_words_dict)
  moreover have "distinct (map fst (snd (match_words (lexicon self) token_list ([], []))))"
    by (simp add: match_words_dict_distinct)
  moreover have "\<forall>label. counter_get (tally (matched_emotions (lexicon self) token_list) []) label
                   = count_list (matched_emotions (lexicon self) token_list) label"
    by (simp add: tally_count counter_get_empty)
  moreover have "distinct (map fst (tally (matched_emotions (lexicon self) token_list) []))"
    by (simp add: tally_distinct)
  moreover have "fst ` set (tally (matched_emotions (lexicon self) token_list) [])
                   = set (matched_emotions (lexicon self) token_list)"
    by (simp add: tally_keys)
  ultimately show ?thesis
    by (simp add: load_token_list_total match_words_spec)
qed

lemmas json_run =
  load_token_list_j_def build_word_affect_j_def Let_def counter_get_def float_div_def
  exact_quot_def
lemmas scenario_run =
  load_token_list_def build_word_affect_def Let_def counter_get_def float_div_def
  exact_quot_def scenario_object_def scenario_lexicon_def new_object_def scenario_tokens_def
  top_emotions_def max_values_def

section \<open>The claims\<close>

subsection \<open>C2: the matched-emotion list\<close>

text \<open>
  C2. For every token sequence and lexicon, after a load the matched-emotion list is the
  concatenation, in token order, of the whole emotion list of each token that is a key of
  the lexicon, duplicates and the order inside each list kept. Its length is the sum, over
  the tokens that are keys, of the lengths of their emotion lists.
\<close>

theorem affect_list_is_concatenation:
  "affect_list (after_load quot self token_list) = matched_emotions (lexicon self) token_list
   \<and> length (affect_list (after_load quot self token_list))
       = sum_list (map (\<lambda>t. length (the (lexicon self t)))
                    (filter (\<lambda>t. lexicon self t \<noteq> None) token_list))"
proof -
  have "length (matched_emotions entries ws)
          = sum_list (map (\<lambda>t. length (the (entries t))) (filter (\<lambda>t. entries t \<noteq> None) ws))"
    for entries :: lexicon_map and ws
    by (simp add: matched_emotions_def length_concat comp_def)
  then show ?thesis
    by (simp add: load_token_list_total match_words_spec)
qed

theorem affect_list_is_concatenation_witness:
  "affect_list (after_load exact_quot scenario_object scenario_tokens)
     = [''joy'', ''positive'', ''joy'', ''positive'', ''sadness'', ''negative'']
   \<and> length (affect_list (after_load exact_quot scenario_object scenario_tokens)) = 6"
  using affect_list_is_concatenation [of exact_quot scenario_object scenario_tokens]
  by (simp add: matched_emotions_def scenario_object_def scenario_lexicon_def
        scenario_tokens_def)

subsection \<open>C8: the empty token sequence\<close>

text \<open>
  C8. For every lexicon, loading the empty token sequence raises nothing and leaves an
  empty matched-emotion list and an empty matched map.
\<close>

theorem load_empty_token_list:
  "fst (load_token_list quot self []) = None
   \<and> affect_list (after_load quot self []) = []
   \<and> affect_dict (after_load quot self []) = []"
  by (simp add: load_token_list_total)

subsection \<open>C1: a load without any match\<close>

text \<open>
  C1 says that a load in which no token is a key of the lexicon divides by zero and raises.
  It does not: with the scenario's lexicon, loading the one token \<^verbatim>\<open>rain\<close> completes and
  raises nothing.
\<close>

theorem load_without_match_does_not_raise:
  "scenario_lexicon ''rain'' = None
   \<and> fst (load_token_list exact_quot scenario_object [''rain'']) = None"
  by (simp add: scenario_run)

text \<open>
  C1, amended. If no token is a key of the lexicon, the load raises nothing; it leaves an
  empty matched-emotion list, raw counts whose total is zero and an empty frequency map.
  The comprehension ranges over the keys of the empty counter, so no division is evaluated.
\<close>

theorem load_without_match_completes:
  assumes "\<forall>t \<in> set token_list. lexicon self t = None"
  shows "fst (load_token_list quot self token_list) = None
         \<and> affect_list (after_load quot self token_list) = []
         \<and> sum_list (map snd (raw_emotion_scores (after_load quot self token_list))) = 0
         \<and> affect_frequencies (after_load quot self token_list) = []"
  using assms by (simp add: load_without_key)

theorem load_without_match_completes_witness:
  "scenario_lexicon ''rain'' = None \<and> scenario_lexicon ''cloud'' = None
   \<and> fst (load_token_list exact_quot scenario_object [''rain'', ''cloud'']) = None
   \<and> affect_list (after_load exact_quot scenario_object [''rain'', ''cloud'']) = []
   \<and> sum_list (map snd (raw_emotion_scores
         (after_load exact_quot scenario_object [''rain'', ''cloud'']))) = 0
   \<and> affect_frequencies (after_load exact_quot scenario_object [''rain'', ''cloud'']) = []"
proof -
  have keys: "scenario_lexicon ''rain'' = None \<and> scenario_lexicon ''cloud'' = None"
    by (simp add: scenario_lexicon_def)
  then have "\<forall>t \<in> set [''rain'', ''cloud'']. lexicon scenario_object t = None"
    by (simp add: scenario_object_def)
  from load_without_match_completes [OF this, of exact_quot] keys show ?thesis
    by blast
qed

subsection \<open>C3: the top emotions\<close>

text \<open>
  C3. After a load that leaves a non-empty frequency map, \<^verbatim>\<open>top_emotions\<close> returns, in the
  order of the map, exactly the (label, frequency) pairs whose frequency is the maximum of
  all frequencies: every returned pair attains the maximum, no frequency is higher, and
  every pair attaining it is returned.
\<close>

theorem top_emotions_are_the_maxima:
  fixes quot :: "nat \<Rightarrow> nat \<Rightarrow> 'f::linorder"
  assumes "affect_frequencies (after_load quot self token_list) \<noteq> []"
  shows "top_emotions (after_load quot self token_list)
           = Inr (filter (\<lambda>p. snd p = Max (snd ` set (affect_frequencies
                                                        (after_load quot self token_list))))
                    (affect_frequencies (after_load quot self token_list)))
         \<and> Max (snd ` set (affect_frequencies (after_load quot self token_list)))
             \<in> snd ` set (affect_frequencies (after_load quot self token_list))
         \<and> (\<forall>p \<in> set (affect_frequencies (after_load quot self token_list)).
               snd p \<le> Max (snd ` set (affect_frequencies (after_load quot self token_list))))"
proof -
  let ?F = "affect_frequencies (after_load quot self token_list)"
  have "top_emotions (after_load quot self token_list)
          = Inr (filter (\<lambda>p. snd p = Max (snd ` set ?F)) ?F)"
    using after_load_distinct_labels assms by (rule top_emotions_filter)
  moreover have "Max (snd ` set ?F) \<in> snd ` set ?F"
    using assms by (intro Max_in) auto
  moreover have "\<forall>p \<in> set ?F. snd p \<le> Max (snd ` set ?F)"
    by auto
  ultimately show ?thesis by blast
qed

theorem top_emotions_are_the_maxima_witness:
  "affect_frequencies (after_load exact_quot scenario_object scenario_tokens)
     = [(''joy'', 1 / 3), (''positive'', 1 / 3), (''sadness'', 1 / 6), (''negative'', 1 / 6)]
   \<and> top_emotions (after_load exact_quot scenario_object scenario_tokens)
       = Inr [(''joy'', 1 / 3), (''positive'', 1 / 3)]"
proof -
  have F: "affect_frequencies (after_load exact_quot scenario_object scenario_tokens)
             = [(''joy'', 1 / 3), (''positive'', 1 / 3), (''sadness'', 1 / 6),
                (''negative'', 1 / 6)]"
    by (simp add: scenario_run)
  then have "affect_frequencies (after_load exact_quot scenario_object scenario_tokens) \<noteq> []"
    by simp
  from top_emotions_are_the_maxima [OF this] F show ?thesis
    by simp
qed

subsection \<open>C4: frequencies as a distribution\<close>

text \<open>
  C4 says that after a load with at least one lexicon match the frequencies sum to 1. A
  token whose lexicon entry is the empty list is a match (it enters the matched map) and
  adds no label: the frequency map stays empty and its sum is 0.
\<close>

theorem match_without_label_sums_to_zero:
  "lexicon bare_object ''the'' = Some []
   \<and> fst (load_token_list exact_quot bare_object [''the'']) = None
   \<and> affect_dict (after_load exact_quot bare_object [''the'']) = [(''the'', [])]
   \<and> affect_frequencies (after_load exact_quot bare_object [''the'']) = []
   \<and> sum_list (map snd (affect_frequencies (after_load exact_quot bare_object [''the''])))
       \<noteq> 1"
  by (simp add: scenario_run bare_object_def)

text \<open>
  C4, amended. After loading a token sequence in which some token is a key of the lexicon
  with a non-empty emotion list (so that the total of the raw counts is positive), the raw
  count of each label is its number of occurrences in the matched-emotion list, and each
  frequency is the quotient of the raw count by the total of all raw counts. With the exact
  quotient of rationals the frequencies sum to 1. With any quotient whose relative error
  is at most \<open>eps\<close>, as the division of doubles has with \<open>eps = 2 ^ -53\<close>, the frequencies
  sum to 1 within \<open>eps\<close>.
\<close>

theorem frequencies_are_counts_over_total:
  assumes "\<exists>t \<in> set token_list. \<exists>es. lexicon self t = Some es \<and> es \<noteq> []"
  shows "(\<forall>label. counter_get (raw_emotion_scores (after_load exact_quot self token_list)) label
                    = count_list (affect_list (after_load exact_quot self token_list)) label)
         \<and> 0 < sum_list (map snd (raw_emotion_scores (after_load exact_quot self token_list)))
         \<and> affect_frequencies (after_load exact_quot self token_list)
             = map (\<lambda>(label, n).
                      (label, of_nat n / of_nat (sum_list (map snd
                         (raw_emotion_scores (after_load exact_quot self token_list))))))
                 (raw_emotion_scores (after_load exact_quot self token_list))
         \<and> sum_list (map snd (affect_frequencies (after_load exact_quot self token_list))) = 1
         \<and> (\<forall>(quot :: nat \<Rightarrow> nat \<Rightarrow> rat) eps.
               (\<forall>a b. 0 < b \<longrightarrow>
                  \<bar>quot a b - of_nat a / of_nat b\<bar> \<le> eps * (of_nat a / of_nat b))
               \<longrightarrow> raw_emotion_scores (after_load quot self token_list)
                     = raw_emotion_scores (after_load exact_quot self token_list)
                   \<and> affect_frequencies (after_load quot self token_list)
                     = map (\<lambda>(label, n).
                              (label, quot n (sum_list (map snd
                                 (raw_emotion_scores (after_load quot self token_list))))))
                         (raw_emotion_scores (after_load quot self token_list))
                   \<and> \<bar>sum_list (map snd (affect_frequencies (after_load quot self token_list)))
                        - 1\<bar> \<le> eps)"
proof -
  let ?al = "fst (match_words (lexicon self) token_list ([], []))"
  let ?c = "tally ?al []"
  let ?N = "sum_list (map snd ?c)"
  have state:
    "affect_list (after_load quot self token_list) = ?al"
    "raw_emotion_scores (after_load quot self token_list) = ?c"
    "affect_frequencies (after_load quot self token_list) = frequencies_of quot ?c"
    for quot :: "nat \<Rightarrow> nat \<Rightarrow> rat"
    by (simp_all add: load_token_list_total)
  have "?al \<noteq> []"
    using assms by (simp add: match_words_spec matched_emotions_nonempty)
  then have pos: "0 < ?N"
    by (simp add: tally_total)
  have counts: "\<forall>label. counter_get ?c label = count_list ?al label"
    by (simp add: tally_count counter_get_empty)
  have freq: "frequencies_of exact_quot ?c
                = map (\<lambda>(label, n). (label, of_nat n / of_nat ?N)) ?c"
    by (simp add: frequencies_of_def exact_quot_def)
  have "sum_list (map snd (frequencies_of exact_quot ?c)) = exact_quot ?N ?N"
    unfolding frequencies_of_def by (rule exact_frequencies_sum)
  also have "\<dots> = 1"
    using pos by (rule exact_quot_self)
  finally have one: "sum_list (map snd (frequencies_of exact_quot ?c)) = 1" .
  have near: "\<bar>sum_list (map snd (frequencies_of quot ?c)) - 1\<bar> \<le> eps"
    if acc: "\<forall>a b. 0 < b \<longrightarrow> \<bar>quot a b - of_nat a / of_nat b\<bar> \<le> eps * (of_nat a / of_nat b)"
    for quot :: "nat \<Rightarrow> nat \<Rightarrow> rat" and eps
  proof -
    have "(of_nat ?N :: rat) / of_nat ?N = 1"
      using exact_quot_self [OF pos] by (simp only: exact_quot_def)
    with frequencies_sum_within [OF acc pos, of ?c] show ?thesis
      unfolding frequencies_of_def by simp
  qed
  have shape: "frequencies_of quot ?c = map (\<lambda>(label, n). (label, quot n ?N)) ?c"
    for quot :: "nat \<Rightarrow> nat \<Rightarrow> rat"
    by (simp add: frequencies_of_def)
  show ?thesis
    unfolding state using counts pos freq one near shape by blast
qed

theorem frequencies_are_counts_over_total_witness:
  "lexicon scenario_object ''happy'' = Some [''joy'', ''positive'']
   \<and> raw_emotion_scores (after_load exact_quot scenario_object scenario_tokens)
       = [(''joy'', 2), (''positive'', 2), (''sadness'', 1), (''negative'', 1)]
   \<and> sum_list (map snd (affect_frequencies
         (after_load exact_quot scenario_object scenario_tokens))) = 1
   \<and> affect_frequencies (after_load double_quot scenario_object scenario_tokens)
       = [(''joy'', 6004799503160661 / 2 ^ 54), (''positive'', 6004799503160661 / 2 ^ 54),
          (''sadness'', 6004799503160661 / 2 ^ 55), (''negative'', 6004799503160661 / 2 ^ 55)]
   \<and> sum_list (map snd (affect_frequencies
         (after_load double_quot scenario_object scenario_tokens)))
       = 18014398509481983 / 18014398509481984
   \<and> \<bar>sum_list (map snd (affect_frequencies
          (after_load double_quot scenario_object scenario_tokens))) - 1\<bar> \<le> 1 / 2 ^ 53"
proof -
  have entry: "lexicon scenario_object ''happy'' = Some [''joy'', ''positive'']"
    by (simp add: scenario_object_def scenario_lexicon_def)
  then have match:
    "\<exists>t \<in> set scenario_tokens. \<exists>es. lexicon scenario_object t = Some es \<and> es \<noteq> []"
    by (simp add: scenario_tokens_def)
  have acc: "\<forall>a b. 0 < b \<longrightarrow>
               \<bar>double_quot a b - of_nat a / of_nat b\<bar> \<le> (1 / 2 ^ 53) * (of_nat a / of_nat b)"
  proof (intro allI impI)
    fix a b :: nat
    assume "0 < b"
    from double_quot_accurate [OF this, of a]
    show "\<bar>double_quot a b - of_nat a / of_nat b\<bar> \<le> (1 / 2 ^ 53) * (of_nat a / of_nat b)"
      by simp
  qed
  note inst = frequencies_are_counts_over_total [OF match]
  from inst have exact: "sum_list (map snd (affect_frequencies
          (after_load exact_quot scenario_object scenario_tokens))) = 1"
    by blast
  from inst acc have near: "\<bar>sum_list (map snd (affect_frequencies
          (after_load double_quot scenario_object scenario_tokens))) - 1\<bar> \<le> 1 / 2 ^ 53"
    by blast
  from inst acc have shape:
    "raw_emotion_scores (after_load double_quot scenario_object scenario_tokens)
       = raw_emotion_scores (after_load exact_quot scenario_object scenario_tokens)
     \<and> affect_frequencies (after_load double_quot scenario_object scenario_tokens)
         = map (\<lambda>(label, n).
                  (label, double_quot n (sum_list (map snd
                     (raw_emotion_scores
                        (after_load double_quot scenario_object scenario_tokens))))))
             (raw_emotion_scores (after_load double_quot scenario_object scenario_tokens))"
    by blast
  have raw: "raw_emotion_scores (after_load exact_quot scenario_object scenario_tokens)
               = [(''joy'', 2), (''positive'', 2), (''sadness'', 1), (''negative'', 1)]"
    by (simp add: scenario_run)
  have dbl: "affect_frequencies (after_load double_quot scenario_object scenario_tokens)
               = [(''joy'', 6004799503160661 / 2 ^ 54), (''positive'', 6004799503160661 / 2 ^ 54),
                  (''sadness'', 6004799503160661 / 2 ^ 55),
                  (''negative'', 6004799503160661 / 2 ^ 55)]"
    using shape by (simp add: raw double_quot_third double_quot_sixth)
  have total: "sum_list (map snd (affect_frequencies
                 (after_load double_quot scenario_object scenario_tokens)))
               = 18014398509481983 / 18014398509481984"
    unfolding dbl by simp
  show ?thesis
    using entry raw exact dbl total near by blast
qed

subsection \<open>C5: reloading\<close>

text \<open>
  C5. For token sequences A and B and a fixed lexicon, loading A, then B, then A again
  leaves the object exactly as the first load of A left it: the same words, matched-emotion
  list, matched map, raw counts and frequencies, hence the same top emotions. None of the
  three loads raises.
\<close>

theorem reload_restores_state:
  fixes quot :: "nat \<Rightarrow> nat \<Rightarrow> 'f::linorder"
  shows "after_load quot (after_load quot (after_load quot self A) B) A = after_load quot self A
         \<and> top_emotions (after_load quot (after_load quot (after_load quot self A) B) A)
             = top_emotions (after_load quot self A)
         \<and> fst (load_token_list quot self A) = None
         \<and> fst (load_token_list quot (after_load quot self A) B) = None
         \<and> fst (load_token_list quot (after_load quot (after_load quot self A) B) A) = None"
  by (simp add: load_token_list_total)

subsection \<open>C6: what a failing load leaves behind\<close>

text \<open>
  C6 says that a token load either succeeds with every field reflecting the new input, or
  signals failure and leaves no mixture of old and new state. The load assigns
  \<^verbatim>\<open>self.words\<close> before it recomputes, and nothing restores it. With a lexicon file whose
  entry for \<^verbatim>\<open>happy\<close> is the number 5, which \<^verbatim>\<open>load_lexicon\<close> accepts, loading \<^verbatim>\<open>sad\<close>
  succeeds; loading \<^verbatim>\<open>happy\<close>, \<^verbatim>\<open>sad\<close> after it raises \<^verbatim>\<open>TypeError\<close> in \<^verbatim>\<open>extend\<close> and leaves
  the new words beside the matched-emotion list, the matched map, the raw counts and the
  frequencies of the earlier load.
\<close>

theorem failed_load_mixes_old_and_new:
  "fst (load_token_list_j exact_quot malformed_object [''sad'']) = None
   \<and> affect_list_j (snd (load_token_list_j exact_quot malformed_object [''sad'']))
       = [JString ''sadness'']
   \<and> fst (load_token_list_j exact_quot
             (snd (load_token_list_j exact_quot malformed_object [''sad'']))
             [''happy'', ''sad'']) = Some TypeError
   \<and> words_j (snd (load_token_list_j exact_quot
                 (snd (load_token_list_j exact_quot malformed_object [''sad'']))
                 [''happy'', ''sad''])) = [''happy'', ''sad'']
   \<and> affect_list_j (snd (load_token_list_j exact_quot
                 (snd (load_token_list_j exact_quot malformed_object [''sad'']))
                 [''happy'', ''sad''])) = [JString ''sadness'']
   \<and> affect_dict_j (snd (load_token_list_j exact_quot
                 (snd (load_token_list_j exact_quot malformed_object [''sad'']))
                 [''happy'', ''sad''])) = [(''sad'', JArray [JString ''sadness''])]
   \<and> raw_emotion_scores_j (snd (load_token_list_j exact_quot
                 (snd (load_token_list_j exact_quot malformed_object [''sad'']))
                 [''happy'', ''sad''])) = [(KString ''sadness'', 1)]
   \<and> affect_frequencies_j (snd (load_token_list_j exact_quot
                 (snd (load_token_list_j exact_quot malformed_object [''sad'']))
                 [''happy'', ''sad''])) = [(KString ''sadness'', 1)]"
  by (simp add: json_run malformed_object_def)

text \<open>
  C6, amended. A token load stores the new token sequence and then recomputes. Either the
  recompute succeeds, and then the words are the new tokens and the resulting object is the
  same whatever the words and the four derived fields were before the load; or the load
  raises \<^verbatim>\<open>TypeError\<close> or \<^verbatim>\<open>AttributeError\<close>, and then the matched-emotion list, the matched
  map, the raw counts and the frequencies are all exactly those before the call, none of
  them half-updated, beside the new token sequence. For a lexicon of the declared type,
  every value a list of strings, the load always succeeds and leaves the derived state
  that the methods on typed lexicons compute.
\<close>

theorem load_token_list_all_or_words_only:
  "((fst (load_token_list_j quot self token_list) = None
       \<and> words_j (snd (load_token_list_j quot self token_list)) = token_list
       \<and> load_token_list_j quot
            (self\<lparr>words_j := w, affect_list_j := al, affect_dict_j := ad,
                  raw_emotion_scores_j := c, affect_frequencies_j := fr\<rparr>) token_list
           = load_token_list_j quot self token_list)
     \<or> ((fst (load_token_list_j quot self token_list) = Some TypeError
           \<or> fst (load_token_list_j quot self token_list) = Some AttributeError)
         \<and> snd (load_token_list_j quot self token_list) = self\<lparr>words_j := token_list\<rparr>))
   \<and> (is_declared_type (lexicon_j self) \<longrightarrow>
         fst (load_token_list_j quot self token_list) = None
         \<and> words_j (snd (load_token_list_j quot self token_list)) = token_list
         \<and> affect_list_j (snd (load_token_list_j quot self token_list))
             = map JString (affect_list
                 (after_load quot (new_object\<lparr>lexicon := lexicon_of (lexicon_j self)\<rparr>)
                    token_list))
         \<and> map (apsnd labels_of) (affect_dict_j (snd (load_token_list_j quot self token_list)))
             = affect_dict
                 (after_load quot (new_object\<lparr>lexicon := lexicon_of (lexicon_j self)\<rparr>)
                    token_list)
         \<and> raw_emotion_scores_j (snd (load_token_list_j quot self token_list))
             = map (apfst KString) (raw_emotion_scores
                 (after_load quot (new_object\<lparr>lexicon := lexicon_of (lexicon_j self)\<rparr>)
                    token_list))
         \<and> affect_frequencies_j (snd (load_token_list_j quot self token_list))
             = map (apfst KString) (affect_frequencies
                 (after_load quot (new_object\<lparr>lexicon := lexicon_of (lexicon_j self)\<rparr>)
                    token_list)))"
proof -
  have outcome:
    "(fst (load_token_list_j quot self token_list) = None
        \<and> words_j (snd (load_token_list_j quot self token_list)) = token_list
        \<and> load_token_list_j quot
             (self\<lparr>words_j := w, affect_list_j := al, affect_dict_j := ad,
                   raw_emotion_scores_j := c, affect_frequencies_j := fr\<rparr>) token_list
            = load_token_list_j quot self token_list)
      \<or> ((fst (load_token_list_j quot self token_list) = Some TypeError
            \<or> fst (load_token_list_j quot self token_list) = Some AttributeError)
          \<and> snd (load_token_list_j quot self token_list) = self\<lparr>words_j := token_list\<rparr>)"
  proof (cases "fst (load_token_list_j quot self token_list)")
    case None
    from load_token_list_j_success [OF this] None show ?thesis by blast
  next
    case (Some e)
    from load_token_list_j_failure [OF this] Some show ?thesis by auto
  qed
  have typed: ?thesis if "is_declared_type (lexicon_j self)"
    using load_token_list_j_typed [OF that, of quot token_list] outcome by blast
  show ?thesis
  proof (cases "is_declared_type (lexicon_j self)")
    case True
    then show ?thesis by (rule typed)
  next
    case False
    with outcome show ?thesis by blast
  qed
qed

theorem load_token_list_all_or_words_only_witness:
  "is_declared_type (lexicon_j scenario_object_j)
   \<and> fst (load_token_list_j exact_quot scenario_object_j scenario_tokens) = None
   \<and> affect_list_j (snd (load_token_list_j exact_quot scenario_object_j scenario_tokens))
       = map JString (affect_list (after_load exact_quot scenario_object scenario_tokens))
   \<and> raw_emotion_scores_j (snd (load_token_list_j exact_quot scenario_object_j scenario_tokens))
       = [(KString ''joy'', 2), (KString ''positive'', 2), (KString ''sadness'', 1),
          (KString ''negative'', 1)]
   \<and> fst (load_token_list_j exact_quot nested_object [''sad'', ''happy'']) = Some TypeError
   \<and> snd (load_token_list_j exact_quot nested_object [''sad'', ''happy''])
       = nested_object\<lparr>words_j := [''sad'', ''happy'']\<rparr>"
proof -
  have decl: "is_declared_type (lexicon_j scenario_object_j)"
    by (simp add: scenario_object_j_def)
  have lex: "new_object\<lparr>lexicon := lexicon_of (lexicon_j scenario_object_j)\<rparr> = scenario_object"
    by (simp add: scenario_object_j_def scenario_object_def scenario_lexicon_def fun_eq_iff)
  have raw: "raw_emotion_scores (after_load exact_quot scenario_object scenario_tokens)
               = [(''joy'', 2), (''positive'', 2), (''sadness'', 1), (''negative'', 1)]"
    by (simp add: scenario_run)
  have fails: "fst (load_token_list_j exact_quot nested_object [''sad'', ''happy''])
                 = Some TypeError"
    by (simp add: json_run nested_object_def)
  from load_token_list_all_or_words_only
         [of exact_quot scenario_object_j scenario_tokens "[]" "[]" "[]" "[]" "[]"] decl
  have good: "fst (load_token_list_j exact_quot scenario_object_j scenario_tokens) = None
      \<and> affect_list_j (snd (load_token_list_j exact_quot scenario_object_j scenario_tokens))
          = map JString (affect_list (after_load exact_quot scenario_object scenario_tokens))
      \<and> raw_emotion_scores_j
            (snd (load_token_list_j exact_quot scenario_object_j scenario_tokens))
          = map (apfst KString)
              (raw_emotion_scores (after_load exact_quot scenario_object scenario_tokens))"
    unfolding lex by blast
  from load_token_list_all_or_words_only
         [of exact_quot nested_object "[''sad'', ''happy'']" "[]" "[]" "[]" "[]" "[]"] fails
  have bad: "snd (load_token_list_j exact_quot nested_object [''sad'', ''happy''])
               = nested_object\<lparr>words_j := [''sad'', ''happy'']\<rparr>"
    by auto
  show ?thesis
    using decl good fails bad by (simp add: raw)
qed

subsection \<open>C7: the constructor's argument\<close>

text \<open>
  C7. An argument that is neither a \<^verbatim>\<open>Path\<close> nor the designator \<^verbatim>\<open>NRCLex\<close> makes the
  constructor raise \<^verbatim>\<open>TypeError\<close> with no file opened. Given a \<^verbatim>\<open>Path\<close>, it opens that
  path and nothing else; given the designator, it opens the bundled file and nothing else.
  In both cases the new object holds the lexicon read, with empty words and derived
  fields, or the reader's exception is passed on.
\<close>

theorem init_rejects_unknown_argument:
  "((\<forall>p. lexicon_file \<noteq> PathArg p) \<and> lexicon_file \<noteq> StrArg ''NRCLex''
      \<longrightarrow> (init reader lexicon_file :: path list \<times> (error + 'f nrclex)) = ([], Inl TypeError))
   \<and> (init reader (PathArg p) :: path list \<times> (error + 'f nrclex))
       = ([p], case reader p of
                 Inl e \<Rightarrow> Inl e
               | Inr entries \<Rightarrow> Inr (new_object\<lparr>lexicon := entries\<rparr>))
   \<and> (init reader (StrArg ''NRCLex'') :: path list \<times> (error + 'f nrclex))
       = ([''nrclex.data/nrc_en.json''],
          case reader ''nrclex.data/nrc_en.json'' of
            Inl e \<Rightarrow> Inl e
          | Inr entries \<Rightarrow> Inr (new_object\<lparr>lexicon := entries\<rparr>))"
proof -
  have "(init reader lexicon_file :: path list \<times> (error + 'f nrclex)) = ([], Inl TypeError)"
    if "\<forall>p. lexicon_file \<noteq> PathArg p" and "lexicon_file \<noteq> StrArg ''NRCLex''"
    using that by (cases lexicon_file) (simp_all add: init_def PreInstalledLexicons_def)
  then show ?thesis
    by (simp add: init_def load_lexicon_def PreInstalledLexicons_def preinstalled_files_def)
qed

theorem init_rejects_unknown_argument_witness:
  "(init scenario_reader (StrArg ''lexicon.json'') :: path list \<times> (error + rat nrclex))
     = ([], Inl TypeError)
   \<and> (init scenario_reader (PathArg ''lexicon.json'') :: path list \<times> (error + rat nrclex))
       = ([''lexicon.json''], Inr scenario_object)
   \<and> (init scenario_reader (StrArg ''NRCLex'') :: path list \<times> (error + rat nrclex))
       = ([''nrclex.data/nrc_en.json''], Inl OSError)"
  using init_rejects_unknown_argument
          [where lexicon_file = "StrArg ''lexicon.json''" and reader = scenario_reader
             and p = "''lexicon.json''" and 'f = rat]
  by (simp add: scenario_reader_def scenario_object_def)

subsection \<open>C9: the lexicon is only read\<close>

text \<open>
  C9. No analysis operation changes the lexicon: after \<^verbatim>\<open>load_token_list\<close>, after
  \<^verbatim>\<open>load_raw_text\<close> (whether the tokenizer raises or not) and after \<^verbatim>\<open>build_word_affect\<close>
  the lexicon is the one before the call. Only \<^verbatim>\<open>load_lexicon\<close>, which the constructor
  calls, stores a new one.
\<close>

theorem analysis_keeps_lexicon:
  "lexicon (after_load quot self token_list) = lexicon self
   \<and> lexicon (snd (load_raw_text lemmas quot self text)) = lexicon self
   \<and> (\<exists>self'. build_word_affect quot self = Inr self' \<and> lexicon self' = lexicon self)
   \<and> snd (load_lexicon reader self p)
       = (case reader p of Inl e \<Rightarrow> Inl e | Inr entries \<Rightarrow> Inr (self\<lparr>lexicon := entries\<rparr>))"
  by (simp add: load_token_list_total load_raw_text_def build_word_affect_total
        load_lexicon_def split: sum.split)

subsection \<open>C10: reading the top emotions of an empty frequency map\<close>

text \<open>
  C10. \<^verbatim>\<open>top_emotions\<close> raises \<^verbatim>\<open>ValueError\<close> whenever the frequency map is empty, since the
  maximum is taken over no value. This is so for a newly constructed object, and after a
  load in which no token is a key of the lexicon: that load itself raises nothing, and the
  failure appears when the accessor is read.
\<close>

theorem top_emotions_raises_on_empty_map:
  fixes self obj :: "('f::linorder) nrclex"
  shows "(affect_frequencies self = [] \<longrightarrow> top_emotions self = Inl ValueError)
         \<and> (snd (init reader lexicon_file) = Inr obj \<longrightarrow> top_emotions obj = Inl ValueError)
         \<and> ((\<forall>t \<in> set token_list. lexicon self t = None)
              \<longrightarrow> fst (load_token_list quot self token_list) = None
                  \<and> top_emotions (after_load quot self token_list) = Inl ValueError)"
proof -
  have "affect_frequencies obj = []" if "snd (init reader lexicon_file) = Inr obj"
    using that
    by (auto simp: init_def load_lexicon_def new_object_def
             split: lexicon_arg.splits if_splits option.splits sum.splits)
  then show ?thesis
    by (simp add: top_emotions_empty load_without_key)
qed

theorem top_emotions_raises_on_empty_map_witness:
  "affect_frequencies scenario_object = []
   \<and> top_emotions scenario_object = Inl ValueError
   \<and> snd (init scenario_reader (PathArg ''lexicon.json'')) = Inr scenario_object
   \<and> lexicon scenario_object ''rain'' = None
   \<and> fst (load_token_list exact_quot scenario_object [''rain'']) = None
   \<and> top_emotions (after_load exact_quot scenario_object [''rain'']) = Inl ValueError"
proof -
  have empty: "affect_frequencies scenario_object = []"
    by (simp add: scenario_object_def new_object_def)
  have made: "snd (init scenario_reader (PathArg ''lexicon.json'')) = Inr scenario_object"
    by (simp add: init_def load_lexicon_def scenario_reader_def scenario_object_def)
  have key: "lexicon scenario_object ''rain'' = None"
    by (simp add: scenario_object_def scenario_lexicon_def)
  then have none: "\<forall>t \<in> set [''rain'']. lexicon scenario_object t = None"
    by simp
  from top_emotions_raises_on_empty_map
         [where self = scenario_object and obj = scenario_object and reader = scenario_reader
            and lexicon_file = "PathArg ''lexicon.json''" and token_list = "[''rain'']"
            and quot = exact_quot]
       empty made key none
  show ?thesis by blast
qed

end
